theory Spec2Isabelle
  imports Main "HOL-Library.Monad_Syntax" "HOL-Library.Sublist"
begin

section \<open>Python values\<close>

text \<open>
  The embedding follows \<^verbatim>\<open>project_game.py\<close> and \<^verbatim>\<open>ai.py\<close>. Python integers are
  \<open>int\<close>. A function of the source that can raise returns an \<open>option\<close>: \<open>None\<close> is
  "an exception leaves the function" (IndexError, TypeError, KeyError, AttributeError or
  AssertionError, named at each place), \<open>Some v\<close> is a normal return of \<open>v\<close>. A Python
  value that may be \<open>None\<close> is an \<open>option\<close> of its own, inside. The text the source
  prints on standard output is not part of the model.
\<close>

type_synonym move = "int \<times> int"
type_synonym grid = "int list list"

text \<open>\<^verbatim>\<open>xs[i]\<close>: an index from \<open>-len(xs)\<close> to \<open>len(xs) - 1\<close>, negative ones counted
  from the end; IndexError otherwise.\<close>

definition py_index :: "'a list \<Rightarrow> int \<Rightarrow> 'a option" where
  "py_index xs i =
     (let n = int (length xs) in
      if 0 \<le> i \<and> i < n then Some (xs ! nat i)
      else if - n \<le> i \<and> i < 0 then Some (xs ! nat (n + i))
      else None)"

text \<open>\<^verbatim>\<open>xs[i] = v\<close>, with the same index rule.\<close>

definition py_store :: "'a list \<Rightarrow> int \<Rightarrow> 'a \<Rightarrow> 'a list option" where
  "py_store xs i v =
     (let n = int (length xs) in
      if 0 \<le> i \<and> i < n then Some (xs[nat i := v])
      else if - n \<le> i \<and> i < 0 then Some (xs[nat (n + i) := v])
      else None)"

section \<open>The game state\<close>

definition MAX_MOVES :: int where
  "MAX_MOVES = 15 * 15"

text \<open>Each entry of \<^verbatim>\<open>_DIRECTIONS\<close> is one axis: its two half-directions, each written
  \<open>(x_direction, y_direction)\<close>.\<close>

definition DIRECTIONS :: "(int \<times> int) list list" where
  "DIRECTIONS = [[(-1, 0), (1, 0)], [(0, -1), (0, 1)], [(-1, 1), (1, -1)], [(-1, -1), (1, 1)]]"

text \<open>The attributes of \<^verbatim>\<open>GomokuGame\<close> that the game logic reads; \<^verbatim>\<open>_width\<close> and
  \<^verbatim>\<open>_height\<close> are read by the drawing code only and are left out. A cell of the board is
  0 (empty), 1 (white) or 2 (black); a move is \<open>(y, x)\<close>.\<close>

record GomokuGame =
  board :: grid
  valid_moves :: "move list"
  is_white_active :: bool
  move_count :: int
  moves_so_far :: "move list"
  last_move :: "move option"

definition empty_board :: grid where
  "empty_board = replicate 15 (replicate 15 0)"

text \<open>\<^verbatim>\<open>[(y, x) for x in range(0, 15) for y in range(0, 15)]\<close>\<close>

definition all_cells :: "move list" where
  "all_cells = [(y, x). x \<leftarrow> [0..14], y \<leftarrow> [0..14]]"

text \<open>\<^verbatim>\<open>__init__\<close>: a board argument that is \<^verbatim>\<open>None\<close> or an empty list is falsy, and
  the fresh all-zero board stays. Whatever the board holds, the valid moves are all 225
  cells, the history is empty and there is no last move.\<close>

definition GomokuGame_init :: "grid option \<Rightarrow> bool \<Rightarrow> int \<Rightarrow> GomokuGame" where
  "GomokuGame_init b white_active mc =
     \<lparr> board = (case b of None \<Rightarrow> empty_board
                          | Some b' \<Rightarrow> if b' \<noteq> [] then b' else empty_board),
       valid_moves = all_cells,
       is_white_active = white_active,
       move_count = mc,
       moves_so_far = [],
       last_move = None \<rparr>"

text \<open>\<^verbatim>\<open>GomokuGame()\<close>, as \<^verbatim>\<open>main.py\<close> starts a game.\<close>

definition new_game :: GomokuGame where
  "new_game = GomokuGame_init None True 0"

text \<open>\<^verbatim>\<open>_board_after_move\<close>: writes the active colour's stone into the row
  \<^verbatim>\<open>self._board[move[0]]\<close> at \<^verbatim>\<open>move[1]\<close>. The rows of a board are distinct lists
  (the constructor builds them so, and \<^verbatim>\<open>deepcopy\<close> keeps them so), hence the write
  changes one row of the grid.\<close>

definition board_after_move :: "GomokuGame \<Rightarrow> move \<Rightarrow> grid option" where
  "board_after_move g m = do {
     row \<leftarrow> py_index (board g) (fst m);
     row' \<leftarrow> py_store row (snd m) (if is_white_active g then 1 else 2);
     py_store (board g) (fst m) row'
   }"

text \<open>\<^verbatim>\<open>make_move\<close>: a move that is not in \<^verbatim>\<open>_valid_moves\<close> prints a message and returns
  normally, with the state as it was; no exception is raised.\<close>

definition make_move :: "GomokuGame \<Rightarrow> move \<Rightarrow> GomokuGame option" where
  "make_move g m =
     (if m \<notin> set (valid_moves g) then Some g
      else do {
        b \<leftarrow> board_after_move g m;
        Some (g\<lparr> board := b,
                is_white_active := \<not> is_white_active g,
                move_count := move_count g + 1,
                last_move := Some m,
                moves_so_far := moves_so_far g @ [m],
                valid_moves := remove1 m (valid_moves g) \<rparr>)
      })"

text \<open>\<^verbatim>\<open>copy_and_make_move\<close>: the copy is built by the constructor from a deep copy of
  the board, the active colour and the move count; then the move is made in it. The
  inner \<open>None\<close> is Python's \<^verbatim>\<open>None\<close>, returned for a move that is not valid.\<close>

definition copy_and_make_move :: "GomokuGame \<Rightarrow> move \<Rightarrow> GomokuGame option option" where
  "copy_and_make_move g m =
     (if m \<notin> set (valid_moves g) then Some None
      else do {
        c \<leftarrow> make_move (GomokuGame_init (Some (board g)) (is_white_active g) (move_count g)) m;
        Some (Some c)
      })"

text \<open>A sequence of \<^verbatim>\<open>make_move\<close> calls on one game object.\<close>

fun play :: "GomokuGame \<Rightarrow> move list \<Rightarrow> GomokuGame option" where
  "play g [] = Some g"
| "play g (m # ms) = do { g' \<leftarrow> make_move g m; play g' ms }"

section \<open>Win detection\<close>

text \<open>\<^verbatim>\<open>_count_direction_5\<close>: at most four steps from \<open>(y, x)\<close> in one half-direction,
  stopping at the board's edge or at the first cell that is not \<open>want\<close>. The loop over
  \<^verbatim>\<open>range(1, 5)\<close> is \<open>count_steps\<close>; each \<^verbatim>\<open>break\<close> returns the count so far.\<close>

fun count_steps ::
  "grid \<Rightarrow> int \<Rightarrow> int \<Rightarrow> int \<Rightarrow> int \<Rightarrow> int \<Rightarrow> int list \<Rightarrow> int \<Rightarrow> int option" where
  "count_steps b y x xd yd want [] count = Some count"
| "count_steps b y x xd yd want (step # steps) count =
     (if xd \<noteq> 0 \<and> (x + xd * step < 0 \<or> x + xd * step > 14) then Some count
      else if yd \<noteq> 0 \<and> (y + yd * step < 0 \<or> y + yd * step > 14) then Some count
      else do {
        row \<leftarrow> py_index b (y + yd * step);
        c \<leftarrow> py_index row (x + xd * step);
        if c = want then count_steps b y x xd yd want steps (count + 1) else Some count
      })"

definition count_direction_5 ::
  "GomokuGame \<Rightarrow> int \<Rightarrow> int \<Rightarrow> int \<Rightarrow> int \<Rightarrow> bool \<Rightarrow> int option" where
  "count_direction_5 g y x xd yd white_turn =
     count_steps (board g) y x xd yd (if white_turn then 2 else 1) [1, 2, 3, 4] 0"

text \<open>\<^verbatim>\<open>_five_in_a_row\<close>: for each axis the count starts at 1, and the test
  \<^verbatim>\<open>count == 5\<close> is made after each of the two half-directions is added.
  \<open>five_axis\<close> is the inner loop: \<open>True\<close> when it returned from inside.\<close>

fun five_axis ::
  "GomokuGame \<Rightarrow> int \<Rightarrow> int \<Rightarrow> bool \<Rightarrow> (int \<times> int) list \<Rightarrow> int \<Rightarrow> bool option" where
  "five_axis g y x white_turn [] count = Some False"
| "five_axis g y x white_turn ((xd, yd) # ds) count = do {
     c \<leftarrow> count_direction_5 g y x xd yd white_turn;
     if count + c = 5 then Some True else five_axis g y x white_turn ds (count + c)
   }"

fun five_axes ::
  "GomokuGame \<Rightarrow> int \<Rightarrow> int \<Rightarrow> bool \<Rightarrow> (int \<times> int) list list \<Rightarrow> bool option" where
  "five_axes g y x white_turn [] = Some False"
| "five_axes g y x white_turn (direction # directions) = do {
     r \<leftarrow> five_axis g y x white_turn direction 1;
     if r then Some True else five_axes g y x white_turn directions
   }"

definition five_in_a_row :: "GomokuGame \<Rightarrow> int \<Rightarrow> int \<Rightarrow> bool \<Rightarrow> bool option" where
  "five_in_a_row g y x white_turn = five_axes g y x white_turn DIRECTIONS"

text \<open>\<^verbatim>\<open>get_winner\<close>: the move count is tested against \<^verbatim>\<open>_MAX_MOVES\<close> before the
  five-in-a-row test. Reading \<^verbatim>\<open>self.last_move[0]\<close> when there is no last move is a
  TypeError.\<close>

definition get_winner :: "GomokuGame \<Rightarrow> string option option" where
  "get_winner g =
     (if move_count g = 0 then Some None
      else case last_move g of
        None \<Rightarrow> None
      | Some (y_coordinate, x_coordinate) \<Rightarrow>
          if move_count g \<ge> MAX_MOVES then Some (Some ''Draw'')
          else do {
            five \<leftarrow> five_in_a_row g y_coordinate x_coordinate (is_white_active g);
            if five then Some (Some (if is_white_active g then ''Black'' else ''White''))
            else Some None
          })"

section \<open>The pattern evaluator\<close>

text \<open>The two dictionaries, in the order of their keys.\<close>

definition CHESS_PATTERN_BLACK :: "(string \<times> int list) list" where
  "CHESS_PATTERN_BLACK =
     [(''Connect_Five'', [2, 2, 2, 2, 2]),
      (''STOP_FOUR'', [1, 1, 1, 1, 2]),
      (''STOP_THREE'', [0, 1, 1, 1, 2]),
      (''STOP_THREE_2'', [2, 1, 1, 1, 2]),
      (''Open_Four'', [0, 2, 2, 2, 2, 0]),
      (''Dead_Four'', [2, 2, 2, 2]),
      (''Blocked_Four_4'', [2, 1, 1, 1, 1, 2]),
      (''Blocked_Four_1'', [0, 2, 2, 2, 2, 1]),
      (''Blocked_Four_2'', [2, 2, 2, 0, 2]),
      (''Blocked_Four_3'', [2, 2, 0, 2, 2]),
      (''Open_Three_1'', [0, 2, 2, 2, 0]),
      (''Open_Three_2'', [2, 0, 2, 2]),
      (''Pattern_Three_1'', [0, 0, 2, 2, 2, 1]),
      (''Pattern_Three_2'', [0, 2, 0, 2, 2, 1]),
      (''Pattern_Three_3'', [0, 2, 2, 0, 2, 0]),
      (''Pattern_Three_4'', [2, 0, 0, 2, 2]),
      (''Pattern_Three_5'', [2, 0, 2, 0, 2]),
      (''Pattern_Three_6'', [1, 0, 2, 2, 2, 0, 1]),
      (''Pattern_Two_1'', [0, 0, 2, 2, 0, 0]),
      (''Pattern_Two_2'', [0, 2, 0, 2, 0]),
      (''Pattern_Two_3'', [2, 0, 0, 2]),
      (''Lian_4'', [1, 1, 2, 1]),
      (''Live_3_kong_1'', [1, 0, 2, 2, 2, 2]),
      (''black_win2'', [1, 2, 2, 2, 2, 2]),
      (''black_win'', [1, 2, 2, 2, 2, 2, 1])]"

definition CHESS_PATTERN_SCORE :: "(string \<times> int) list" where
  "CHESS_PATTERN_SCORE =
     [(''Connect_Five'', 99999990),
      (''black_win'', 99999980),
      (''black_win2'', 99999970),
      (''Blocked_Four_4'', 88888880),
      (''STOP_THREE_2'', 77777770),
      (''Lian_4'', 77777780),
      (''Open_Four'', 80000000),
      (''STOP_FOUR'', 10000000),
      (''STOP_THREE'', 77777780),
      (''Live_3_kong_1'', 71000),
      (''Blocked_Four_1'', 60000),
      (''Blocked_Four_2'', 55000),
      (''Blocked_Four_3'', 55000),
      (''Dead_Four'', 20000),
      (''Open_Three_1'', 50000),
      (''Open_Three_2'', 30000),
      (''Pattern_Three_1'', 10000),
      (''Pattern_Three_2'', 8000),
      (''Pattern_Three_3'', 8000),
      (''Pattern_Three_4'', 9000),
      (''Pattern_Three_5'', 6000),
      (''Pattern_Three_6'', 8000),
      (''Pattern_Two_1'', 2000),
      (''Pattern_Two_2'', 1500),
      (''Pattern_Two_3'', 1000)]"

text \<open>\<^verbatim>\<open>_check_contain\<close>: \<^verbatim>\<open>any(a == b[i:i + n] for i in range(len(b) - n + 1))\<close>; the
  slice \<^verbatim>\<open>b[i:i + n]\<close> is \<open>take n (drop i b)\<close>, and the range is empty when \<open>a\<close> is
  longer than \<open>b\<close>.\<close>

definition check_contain :: "int list \<Rightarrow> int list \<Rightarrow> bool" where
  "check_contain a b =
     (let n = length a in
      list_ex (\<lambda>i. a = take n (drop i b)) [0 ..< nat (int (length b) - int n + 1)])"

text \<open>\<^verbatim>\<open>_evaluate_line\<close>: the loop over the keys of \<^verbatim>\<open>_CHESS_PATTERN_BLACK\<close>, with the
  score so far; \<^verbatim>\<open>_CHESS_PATTERN_SCORE[key]\<close> is a KeyError for a key the score table
  does not have.\<close>

fun evaluate_patterns :: "(string \<times> int list) list \<Rightarrow> int list \<Rightarrow> int \<Rightarrow> int option" where
  "evaluate_patterns [] line score = Some score"
| "evaluate_patterns ((key, a_1) # pattern) line score =
     (if check_contain a_1 line \<or> check_contain (rev a_1) line
      then do {
        s \<leftarrow> map_of CHESS_PATTERN_SCORE key;
        evaluate_patterns pattern line (score + s)
      }
      else evaluate_patterns pattern line score)"

definition evaluate_line :: "int list \<Rightarrow> int option" where
  "evaluate_line line = evaluate_patterns CHESS_PATTERN_BLACK line 0"

section \<open>Lines through the last move\<close>

text \<open>\<^verbatim>\<open>getline\<close>, the inner function of \<^verbatim>\<open>generate_line\<close>: the row, the column, and
  the two diagonals through \<open>center\<close>, the diagonals clipped to columns 0 to 14 by the
  marker -1 that is filtered out afterwards. For a direction other than 0 to 3 it
  returns Python's \<^verbatim>\<open>None\<close> (the inner \<open>None\<close>).\<close>

definition getline :: "grid \<Rightarrow> move \<Rightarrow> int \<Rightarrow> int list option option" where
  "getline b center direction =
     (if direction = 0 then map_option Some (py_index b (fst center))
      else if direction = 1 then
        map_option Some (those (map (\<lambda>lst. py_index lst (snd center)) b))
      else if direction = 2 then
        map_option (\<lambda>x. Some (filter (\<lambda>a. a \<noteq> -1) x))
          (those (map (\<lambda>(i, lst).
             if snd center + int i - fst center \<ge> 0 \<and> snd center + int i - fst center \<le> 14
             then py_index lst (snd center + int i - fst center) else Some (-1))
             (enumerate 0 b)))
      else if direction = 3 then
        map_option (\<lambda>x. Some (filter (\<lambda>a. a \<noteq> -1) x))
          (those (map (\<lambda>(i, lst).
             if fst center - int i + snd center \<ge> 0 \<and> fst center - int i + snd center \<le> 14
             then py_index lst (fst center - int i + snd center) else Some (-1))
             (enumerate 0 b)))
      else Some None)"

text \<open>\<^verbatim>\<open>generate_line\<close>: the line on a deep copy of the board with the centre cell set
  to 0, and the line on the board as it is. The centre is \<^verbatim>\<open>self.last_move\<close>; indexing
  it when it is \<^verbatim>\<open>None\<close> is a TypeError.\<close>

definition generate_line ::
  "GomokuGame \<Rightarrow> move option \<Rightarrow> int \<Rightarrow> (int list option \<times> int list option) option" where
  "generate_line g center direction =
     (case center of
        None \<Rightarrow> None
      | Some c \<Rightarrow> do {
          row \<leftarrow> py_index (board g) (fst c);
          row' \<leftarrow> py_store row (snd c) 0;
          oldboard \<leftarrow> py_store (board g) (fst c) row';
          old_line \<leftarrow> getline oldboard c direction;
          new_line \<leftarrow> getline (board g) c direction;
          Some (old_line, new_line)
        })"

text \<open>\<^verbatim>\<open>_evaluate_line\<close> called on what \<^verbatim>\<open>getline\<close> returned: \<^verbatim>\<open>len(None)\<close> is a
  TypeError.\<close>

definition evaluate_line_of :: "int list option \<Rightarrow> int option" where
  "evaluate_line_of line = (case line of None \<Rightarrow> None | Some l \<Rightarrow> evaluate_line l)"

text \<open>\<^verbatim>\<open>evaluate_game\<close>: the loop over the directions 0 to 3, with the score so far.\<close>

fun evaluate_directions :: "GomokuGame \<Rightarrow> move option \<Rightarrow> int list \<Rightarrow> int \<Rightarrow> int option" where
  "evaluate_directions g center [] score = Some score"
| "evaluate_directions g center (direction # directions) score = do {
     (old_line, new_line) \<leftarrow> generate_line g center direction;
     new_score \<leftarrow> evaluate_line_of new_line;
     old_score \<leftarrow> evaluate_line_of old_line;
     evaluate_directions g center directions (score + (new_score - old_score))
   }"

definition evaluate_game :: "GomokuGame \<Rightarrow> int option" where
  "evaluate_game g = evaluate_directions g (last_move g) [0, 1, 2, 3] 0"

section \<open>Candidate moves\<close>

text \<open>\<^verbatim>\<open>_check_neighbour\<close>: the two nested loops visit the cells of the square of the
  given radius around the move, row by row, the move's own cell included, and return at
  the first cell on the board that is not 0.\<close>

fun check_cells :: "grid \<Rightarrow> (int \<times> int) list \<Rightarrow> bool option" where
  "check_cells b [] = Some False"
| "check_cells b ((y, x) # cells) =
     (if 0 \<le> y \<and> y \<le> 14 \<and> 0 \<le> x \<and> x \<le> 14
      then do {
        row \<leftarrow> py_index b y;
        c \<leftarrow> py_index row x;
        if c \<noteq> 0 then Some True else check_cells b cells
      }
      else check_cells b cells)"

definition check_neighbour :: "GomokuGame \<Rightarrow> move \<Rightarrow> int \<Rightarrow> bool option" where
  "check_neighbour g m radius =
     check_cells (board g)
       [(y, x). y \<leftarrow> [fst m - radius .. fst m + radius], x \<leftarrow> [snd m - radius .. snd m + radius]]"

text \<open>\<^verbatim>\<open>valid_moves_with_neighbour\<close>: the valid moves that pass
  \<^verbatim>\<open>_check_neighbour\<close>, in the order of \<^verbatim>\<open>_valid_moves\<close>.\<close>

fun neighbour_moves :: "GomokuGame \<Rightarrow> int \<Rightarrow> move list \<Rightarrow> move list option" where
  "neighbour_moves g radius [] = Some []"
| "neighbour_moves g radius (m # ms) = do {
     c \<leftarrow> check_neighbour g m radius;
     rest \<leftarrow> neighbour_moves g radius ms;
     Some (if c then m # rest else rest)
   }"

definition valid_moves_with_neighbour :: "GomokuGame \<Rightarrow> int \<Rightarrow> move list option" where
  "valid_moves_with_neighbour g radius = neighbour_moves g radius (valid_moves g)"

section \<open>The search\<close>

text \<open>\<^verbatim>\<open>AIPlayer.make_move\<close> returns the score and leaves the chosen move in
  \<^verbatim>\<open>self._next_move\<close>; the model returns both. The attribute is reset to \<^verbatim>\<open>None\<close> on
  entry, and this call's own assignment (or none, on the two early returns) is the last
  one, after every recursive call has returned. The depth \<open>d\<close> is a natural number.

  The loop over the candidates is \<open>minimax_loop\<close>, with the running \<^verbatim>\<open>score\<close> (0 before
  the first candidate) and \<^verbatim>\<open>next_move\<close>; \<open>search\<close> is the recursive call at depth
  \<open>d - 1\<close>. Reading \<^verbatim>\<open>last_move\<close> of the \<^verbatim>\<open>None\<close> that \<^verbatim>\<open>copy_and_make_move\<close> may
  return is an AttributeError.\<close>

fun minimax_loop ::
  "(GomokuGame \<Rightarrow> (int \<times> move option) option) \<Rightarrow> GomokuGame \<Rightarrow> move list \<Rightarrow> int \<Rightarrow>
   move option \<Rightarrow> (int \<times> move option) option" where
  "minimax_loop search game [] score next_move = Some (score, next_move)"
| "minimax_loop search game (m # possible_moves) score next_move = do {
     new_game \<leftarrow> copy_and_make_move game m;
     (x, _) \<leftarrow> (case new_game of None \<Rightarrow> None | Some c \<Rightarrow> search c);
     if x \<ge> score then minimax_loop search game possible_moves x (Some m)
     else minimax_loop search game possible_moves score next_move
   }"

primrec AIPlayer_make_move :: "nat \<Rightarrow> GomokuGame \<Rightarrow> (int \<times> move option) option" where
  "AIPlayer_make_move 0 game =
     (case last_move game of
        None \<Rightarrow> Some (100, Some (7, 7))
      | Some _ \<Rightarrow> do {
          score \<leftarrow> evaluate_game game;
          score \<leftarrow> evaluate_game game;
          Some (score, None)
        })"
| "AIPlayer_make_move (Suc d) game =
     (case last_move game of
        None \<Rightarrow> Some (100, Some (7, 7))
      | Some _ \<Rightarrow> do {
          score \<leftarrow> evaluate_game game;
          possible_moves \<leftarrow> valid_moves_with_neighbour game 1;
          if length possible_moves = 0 then Some (score, None)
          else minimax_loop (AIPlayer_make_move d) game possible_moves 0 None
        })"

text \<open>\<^verbatim>\<open>activate_make_move\<close>: sets \<^verbatim>\<open>self._depth\<close>, which the plain search never
  reads, and returns the score with \<^verbatim>\<open>self._next_move\<close>.\<close>

definition activate_make_move :: "GomokuGame \<Rightarrow> nat \<Rightarrow> (int \<times> move option) option" where
  "activate_make_move game d = do {
     (score, next_move) \<leftarrow> AIPlayer_make_move d game;
     Some (score, next_move)
   }"

text \<open>The bounds of \<^verbatim>\<open>make_move_and_prune\<close> are Python numbers: an integer score, or
  the floats \<^verbatim>\<open>float('-inf')\<close> and \<^verbatim>\<open>float('inf')\<close>. No other float arises: the only
  arithmetic on them is negation.\<close>

datatype pynum = NegInf | Num int | PosInf

fun num_neg :: "pynum \<Rightarrow> pynum" where
  "num_neg NegInf = PosInf"
| "num_neg (Num n) = Num (- n)"
| "num_neg PosInf = NegInf"

fun num_less :: "pynum \<Rightarrow> pynum \<Rightarrow> bool" where
  "num_less (Num a) (Num b) = (a < b)"
| "num_less NegInf b = (b \<noteq> NegInf)"
| "num_less a PosInf = (a \<noteq> PosInf)"
| "num_less a b = False"

definition num_le :: "pynum \<Rightarrow> pynum \<Rightarrow> bool" where
  "num_le a b = (a = b \<or> num_less a b)"

text \<open>The loop of \<^verbatim>\<open>make_move_and_prune\<close>, with the running \<^verbatim>\<open>alpha\<close> and
  \<^verbatim>\<open>next_move\<close>, and \<open>field\<close>, the value of \<^verbatim>\<open>self._next_move\<close> as the last recursive
  call left it. A candidate replaces the running best when its negated score is
  greater than \<^verbatim>\<open>alpha\<close>; the loop stops when \<^verbatim>\<open>alpha >= beta\<close>.\<close>

fun prune_loop ::
  "(GomokuGame \<Rightarrow> pynum \<Rightarrow> pynum \<Rightarrow> (pynum \<times> move option) option) \<Rightarrow> GomokuGame \<Rightarrow>
   move list \<Rightarrow> pynum \<Rightarrow> pynum \<Rightarrow> move option \<Rightarrow> move option \<Rightarrow>
   (pynum \<times> move option \<times> move option) option" where
  "prune_loop search game [] alpha beta next_move field = Some (alpha, next_move, field)"
| "prune_loop search game (m # possible_moves) alpha beta next_move field = do {
     new_game \<leftarrow> copy_and_make_move game m;
     (r, field') \<leftarrow> (case new_game of
                      None \<Rightarrow> None
                    | Some c \<Rightarrow> search c (num_neg beta) (num_neg alpha));
     if num_less alpha (num_neg r)
     then (if num_le beta (num_neg r) then Some (num_neg r, Some m, field')
           else prune_loop search game possible_moves (num_neg r) beta (Some m) field')
     else prune_loop search game possible_moves alpha beta next_move field'
   }"

text \<open>\<^verbatim>\<open>AIPlayer.make_move_and_prune\<close>; \<open>depth\<close> is the attribute \<^verbatim>\<open>self._depth\<close>. At
  the frame whose \<open>d\<close> equals it, the assertion that a move was found is an
  AssertionError when none was, and the move is stored; at the other frames
  \<^verbatim>\<open>self._next_move\<close> stays as the last recursive call left it.\<close>

primrec AIPlayer_make_move_and_prune ::
  "nat \<Rightarrow> int option \<Rightarrow> GomokuGame \<Rightarrow> pynum \<Rightarrow> pynum \<Rightarrow> (pynum \<times> move option) option" where
  "AIPlayer_make_move_and_prune 0 depth game alpha beta =
     (case last_move game of
        None \<Rightarrow> Some (Num 100, Some (7, 7))
      | Some _ \<Rightarrow> do {
          score \<leftarrow> evaluate_game game;
          score \<leftarrow> evaluate_game game;
          Some (Num score, None)
        })"
| "AIPlayer_make_move_and_prune (Suc d) depth game alpha beta =
     (case last_move game of
        None \<Rightarrow> Some (Num 100, Some (7, 7))
      | Some _ \<Rightarrow> do {
          score \<leftarrow> evaluate_game game;
          possible_moves \<leftarrow> valid_moves_with_neighbour game 1;
          if length possible_moves = 0 then Some (Num score, None)
          else do {
            (alpha', next_move, field) \<leftarrow>
              prune_loop (AIPlayer_make_move_and_prune d depth) game possible_moves
                alpha beta None None;
            if depth = Some (int (Suc d))
            then (case next_move of None \<Rightarrow> None | Some _ \<Rightarrow> Some (alpha', next_move))
            else Some (alpha', field)
          }
        })"

section \<open>The evaluator as the specification words it\<close>

text \<open>The score of a line as the specification states it: the sum, over the catalog, of
  the score of every pattern whose signature or reversed signature occurs as a
  contiguous subsequence (\<open>sublist\<close>) of the line. \<open>pattern_score\<close> reads the score table.\<close>

definition pattern_score :: "string \<Rightarrow> int" where
  "pattern_score key = (case map_of CHESS_PATTERN_SCORE key of None \<Rightarrow> 0 | Some s \<Rightarrow> s)"

definition spec_line_score :: "int list \<Rightarrow> int" where
  "spec_line_score line =
     sum_list (map (\<lambda>(key, signature).
        if sublist signature line \<or> sublist (rev signature) line then pattern_score key else 0)
        CHESS_PATTERN_BLACK)"

section \<open>The win rule as the specification words it\<close>

text \<open>The cell \<open>(y, x)\<close> of a grid, as \<^verbatim>\<open>board[y][x]\<close> reads it.\<close>

definition cell :: "grid \<Rightarrow> int \<Rightarrow> int \<Rightarrow> int option" where
  "cell b y x = do { row \<leftarrow> py_index b y; py_index row x }"

text \<open>The run through a cell along an axis \<open>(dy, dx)\<close>, as the specification counts it:
  the stone itself, and the stones of its colour that follow it without a gap in each of
  the two directions, up to the edge of the board or the first cell of another value.
  No run is cut at four steps: the steps go from 1 to 14, the whole board.\<close>

fun spec_count :: "grid \<Rightarrow> int \<Rightarrow> int \<Rightarrow> int \<Rightarrow> int \<Rightarrow> int \<Rightarrow> int list \<Rightarrow> int" where
  "spec_count b colour y x dy dx [] = 0"
| "spec_count b colour y x dy dx (k # ks) =
     (if 0 \<le> y + k * dy \<and> y + k * dy \<le> 14 \<and> 0 \<le> x + k * dx \<and> x + k * dx \<le> 14 \<and>
         cell b (y + k * dy) (x + k * dx) = Some colour
      then 1 + spec_count b colour y x dy dx ks else 0)"

definition spec_run :: "grid \<Rightarrow> int \<Rightarrow> int \<Rightarrow> int \<times> int \<Rightarrow> int" where
  "spec_run b y x axis =
     (case cell b y x of
        None \<Rightarrow> 0
      | Some colour \<Rightarrow>
          1 + spec_count b colour y x (fst axis) (snd axis) [1..14]
            + spec_count b colour y x (- fst axis) (- snd axis) [1..14])"

text \<open>A win as the specification states it: the run is exactly 5 along the row, the
  column or one of the two diagonals.\<close>

definition spec_win :: "grid \<Rightarrow> int \<Rightarrow> int \<Rightarrow> bool" where
  "spec_win b y x = list_ex (\<lambda>axis. spec_run b y x axis = 5) [(0, 1), (1, 0), (1, 1), (1, -1)]"

section \<open>Well-formed states\<close>

text \<open>A board of 15 rows of 15 cells, and a last move on it. On such a state no index
  of the evaluation and of the search is out of range.\<close>

definition wf_board :: "grid \<Rightarrow> bool" where
  "wf_board b = (length b = 15 \<and> list_all (\<lambda>row. length row = 15) b)"

definition on_board :: "move \<Rightarrow> bool" where
  "on_board m = (0 \<le> fst m \<and> fst m \<le> 14 \<and> 0 \<le> snd m \<and> snd m \<le> 14)"

definition wf_game :: "GomokuGame \<Rightarrow> bool" where
  "wf_game g =
     (wf_board (board g) \<and> (case last_move g of None \<Rightarrow> True | Some m \<Rightarrow> on_board m))"

text \<open>A child of a search node: \<^verbatim>\<open>copy_and_make_move\<close> returns a game whose last move is
  the candidate and whose static evaluation is \<open>v\<close>.\<close>

definition child_value :: "GomokuGame \<Rightarrow> move \<Rightarrow> int \<Rightarrow> bool" where
  "child_value g m v =
     (case copy_and_make_move g m of
        Some (Some c) \<Rightarrow> last_move c = Some m \<and> evaluate_game c = Some v
      | _ \<Rightarrow> False)"

section \<open>Five games\<close>

text \<open>The states below are reached from \<^verbatim>\<open>GomokuGame()\<close> by \<^verbatim>\<open>make_move\<close> alone
  (lemmas \<open>play_opening\<close>, \<open>play_six\<close>, \<open>play_corner\<close>, \<open>play_moves224\<close> and
  \<open>play_game225\<close>). White moves first and places 1, Black places 2.

  \<open>opening_game\<close>: White has played the centre.\<close>

definition opening_game :: GomokuGame where
  "opening_game =
     \<lparr> board =
        [[0, 0, 0, 0, 0, 0, 0, 0, 0, 0, 0, 0, 0, 0, 0],
         [0, 0, 0, 0, 0, 0, 0, 0, 0, 0, 0, 0, 0, 0, 0],
         [0, 0, 0, 0, 0, 0, 0, 0, 0, 0, 0, 0, 0, 0, 0],
         [0, 0, 0, 0, 0, 0, 0, 0, 0, 0, 0, 0, 0, 0, 0],
         [0, 0, 0, 0, 0, 0, 0, 0, 0, 0, 0, 0, 0, 0, 0],
         [0, 0, 0, 0, 0, 0, 0, 0, 0, 0, 0, 0, 0, 0, 0],
         [0, 0, 0, 0, 0, 0, 0, 0, 0, 0, 0, 0, 0, 0, 0],
         [0, 0, 0, 0, 0, 0, 0, 1, 0, 0, 0, 0, 0, 0, 0],
         [0, 0, 0, 0, 0, 0, 0, 0, 0, 0, 0, 0, 0, 0, 0],
         [0, 0, 0, 0, 0, 0, 0, 0, 0, 0, 0, 0, 0, 0, 0],
         [0, 0, 0, 0, 0, 0, 0, 0, 0, 0, 0, 0, 0, 0, 0],
         [0, 0, 0, 0, 0, 0, 0, 0, 0, 0, 0, 0, 0, 0, 0],
         [0, 0, 0, 0, 0, 0, 0, 0, 0, 0, 0, 0, 0, 0, 0],
         [0, 0, 0, 0, 0, 0, 0, 0, 0, 0, 0, 0, 0, 0, 0],
         [0, 0, 0, 0, 0, 0, 0, 0, 0, 0, 0, 0, 0, 0, 0]],
       valid_moves = remove1 (7, 7) all_cells,
       is_white_active = False,
       move_count = 1,
       moves_so_far = [(7, 7)],
       last_move = Some (7, 7) \<rparr>"

text \<open>\<open>six_game\<close>: White has four stones in row 7, columns 3 to 6, then one at column 8,
  and fills the gap at column 7 with the eleventh move: six white stones in a row. Black
  has answered in row 0, on every second column.\<close>

definition six_moves :: "move list" where
  "six_moves = [(7, 3), (0, 0), (7, 4), (0, 2), (7, 5), (0, 4), (7, 6), (0, 6),
       (7, 8), (0, 8), (7, 7)]"

definition six_game :: GomokuGame where
  "six_game =
     \<lparr> board =
        [[2, 0, 2, 0, 2, 0, 2, 0, 2, 0, 0, 0, 0, 0, 0],
         [0, 0, 0, 0, 0, 0, 0, 0, 0, 0, 0, 0, 0, 0, 0],
         [0, 0, 0, 0, 0, 0, 0, 0, 0, 0, 0, 0, 0, 0, 0],
         [0, 0, 0, 0, 0, 0, 0, 0, 0, 0, 0, 0, 0, 0, 0],
         [0, 0, 0, 0, 0, 0, 0, 0, 0, 0, 0, 0, 0, 0, 0],
         [0, 0, 0, 0, 0, 0, 0, 0, 0, 0, 0, 0, 0, 0, 0],
         [0, 0, 0, 0, 0, 0, 0, 0, 0, 0, 0, 0, 0, 0, 0],
         [0, 0, 0, 1, 1, 1, 1, 1, 1, 0, 0, 0, 0, 0, 0],
         [0, 0, 0, 0, 0, 0, 0, 0, 0, 0, 0, 0, 0, 0, 0],
         [0, 0, 0, 0, 0, 0, 0, 0, 0, 0, 0, 0, 0, 0, 0],
         [0, 0, 0, 0, 0, 0, 0, 0, 0, 0, 0, 0, 0, 0, 0],
         [0, 0, 0, 0, 0, 0, 0, 0, 0, 0, 0, 0, 0, 0, 0],
         [0, 0, 0, 0, 0, 0, 0, 0, 0, 0, 0, 0, 0, 0, 0],
         [0, 0, 0, 0, 0, 0, 0, 0, 0, 0, 0, 0, 0, 0, 0],
         [0, 0, 0, 0, 0, 0, 0, 0, 0, 0, 0, 0, 0, 0, 0]],
       valid_moves = filter (\<lambda>m. m \<notin> set six_moves) all_cells,
       is_white_active = False,
       move_count = 11,
       moves_so_far = six_moves,
       last_move = Some (7, 7) \<rparr>"

text \<open>\<open>corner_game\<close>: six stones in the top left corner, White to move.
  Row 0 is Black, White, White; row 1 is White, Black, Black.\<close>

definition corner_moves :: "move list" where
  "corner_moves = [(0, 1), (0, 0), (0, 2), (1, 1), (1, 0), (1, 2)]"

definition corner_game :: GomokuGame where
  "corner_game =
     \<lparr> board =
        [[2, 1, 1, 0, 0, 0, 0, 0, 0, 0, 0, 0, 0, 0, 0],
         [1, 2, 2, 0, 0, 0, 0, 0, 0, 0, 0, 0, 0, 0, 0],
         [0, 0, 0, 0, 0, 0, 0, 0, 0, 0, 0, 0, 0, 0, 0],
         [0, 0, 0, 0, 0, 0, 0, 0, 0, 0, 0, 0, 0, 0, 0],
         [0, 0, 0, 0, 0, 0, 0, 0, 0, 0, 0, 0, 0, 0, 0],
         [0, 0, 0, 0, 0, 0, 0, 0, 0, 0, 0, 0, 0, 0, 0],
         [0, 0, 0, 0, 0, 0, 0, 0, 0, 0, 0, 0, 0, 0, 0],
         [0, 0, 0, 0, 0, 0, 0, 0, 0, 0, 0, 0, 0, 0, 0],
         [0, 0, 0, 0, 0, 0, 0, 0, 0, 0, 0, 0, 0, 0, 0],
         [0, 0, 0, 0, 0, 0, 0, 0, 0, 0, 0, 0, 0, 0, 0],
         [0, 0, 0, 0, 0, 0, 0, 0, 0, 0, 0, 0, 0, 0, 0],
         [0, 0, 0, 0, 0, 0, 0, 0, 0, 0, 0, 0, 0, 0, 0],
         [0, 0, 0, 0, 0, 0, 0, 0, 0, 0, 0, 0, 0, 0, 0],
         [0, 0, 0, 0, 0, 0, 0, 0, 0, 0, 0, 0, 0, 0, 0],
         [0, 0, 0, 0, 0, 0, 0, 0, 0, 0, 0, 0, 0, 0, 0]],
       valid_moves = filter (\<lambda>m. m \<notin> set corner_moves) all_cells,
       is_white_active = True,
       move_count = 6,
       moves_so_far = corner_moves,
       last_move = Some (1, 2) \<rparr>"

text \<open>\<open>game224\<close>: 224 moves, every cell but \<open>(0, 0)\<close> is taken, White to move. No
  five stones of one colour stand in a row; White has the columns 1 to 4 of row 0 (a
  black stone follows at column 5) and the rows 1 to 3 of column 0 (a black stone follows
  at row 4).\<close>

definition moves224 :: "move list" where
  "moves224 =
       [(1, 0), (4, 0), (2, 0), (5, 0), (3, 0), (7, 0), (6, 0), (9, 0),
        (8, 0), (11, 0), (10, 0), (13, 0), (12, 0), (1, 1), (14, 0), (3, 1),
        (0, 1), (5, 1), (2, 1), (7, 1), (4, 1), (9, 1), (6, 1), (11, 1),
        (8, 1), (13, 1), (10, 1), (2, 2), (12, 1), (4, 2), (14, 1), (6, 2),
        (0, 2), (8, 2), (1, 2), (10, 2), (3, 2), (12, 2), (5, 2), (14, 2),
        (7, 2), (2, 3), (9, 2), (4, 3), (11, 2), (6, 3), (13, 2), (8, 3),
        (0, 3), (10, 3), (1, 3), (12, 3), (3, 3), (14, 3), (5, 3), (1, 4),
        (7, 3), (3, 4), (9, 3), (5, 4), (11, 3), (7, 4), (13, 3), (9, 4),
        (0, 4), (11, 4), (2, 4), (13, 4), (4, 4), (0, 5), (6, 4), (1, 5),
        (8, 4), (3, 5), (10, 4), (5, 5), (12, 4), (7, 5), (14, 4), (9, 5),
        (2, 5), (11, 5), (4, 5), (13, 5), (6, 5), (0, 6), (8, 5), (2, 6),
        (10, 5), (4, 6), (12, 5), (6, 6), (14, 5), (8, 6), (1, 6), (10, 6),
        (3, 6), (12, 6), (5, 6), (14, 6), (7, 6), (0, 7), (9, 6), (2, 7),
        (11, 6), (4, 7), (13, 6), (6, 7), (1, 7), (8, 7), (3, 7), (10, 7),
        (5, 7), (12, 7), (7, 7), (14, 7), (9, 7), (1, 8), (11, 7), (3, 8),
        (13, 7), (5, 8), (0, 8), (7, 8), (2, 8), (9, 8), (4, 8), (11, 8),
        (6, 8), (13, 8), (8, 8), (1, 9), (10, 8), (3, 9), (12, 8), (5, 9),
        (14, 8), (7, 9), (0, 9), (8, 9), (2, 9), (9, 9), (4, 9), (11, 9),
        (6, 9), (13, 9), (10, 9), (0, 10), (12, 9), (2, 10), (14, 9), (4, 10),
        (1, 10), (6, 10), (3, 10), (8, 10), (5, 10), (10, 10), (7, 10), (12, 10),
        (9, 10), (14, 10), (11, 10), (0, 11), (13, 10), (2, 11), (1, 11), (4, 11),
        (3, 11), (6, 11), (5, 11), (8, 11), (7, 11), (10, 11), (9, 11), (12, 11),
        (11, 11), (14, 11), (13, 11), (1, 12), (0, 12), (3, 12), (2, 12), (5, 12),
        (4, 12), (7, 12), (6, 12), (8, 12), (10, 12), (9, 12), (12, 12), (11, 12),
        (14, 12), (13, 12), (0, 13), (1, 13), (2, 13), (3, 13), (4, 13), (5, 13),
        (6, 13), (7, 13), (8, 13), (9, 13), (10, 13), (11, 13), (12, 13), (13, 13),
        (14, 13), (0, 14), (1, 14), (2, 14), (3, 14), (4, 14), (5, 14), (6, 14),
        (7, 14), (8, 14), (9, 14), (10, 14), (11, 14), (12, 14), (13, 14), (14, 14)]"

definition game224 :: GomokuGame where
  "game224 =
     \<lparr> board =
        [[0, 1, 1, 1, 1, 2, 2, 2, 1, 1, 2, 2, 1, 1, 2],
         [1, 2, 1, 1, 2, 2, 1, 1, 2, 2, 1, 1, 2, 2, 1],
         [1, 1, 2, 2, 1, 1, 2, 2, 1, 1, 2, 2, 1, 1, 2],
         [1, 2, 1, 1, 2, 2, 1, 1, 2, 2, 1, 1, 2, 2, 1],
         [2, 1, 2, 2, 1, 1, 2, 2, 1, 1, 2, 2, 1, 1, 2],
         [2, 2, 1, 1, 2, 2, 1, 1, 2, 2, 1, 1, 2, 2, 1],
         [1, 1, 2, 2, 1, 1, 2, 2, 1, 1, 2, 2, 1, 1, 2],
         [2, 2, 1, 1, 2, 2, 1, 1, 2, 2, 1, 1, 2, 2, 1],
         [1, 1, 2, 2, 1, 1, 2, 2, 1, 2, 2, 2, 2, 1, 2],
         [2, 2, 1, 1, 2, 2, 1, 1, 2, 2, 1, 1, 2, 2, 1],
         [1, 1, 2, 2, 1, 1, 2, 2, 1, 1, 2, 2, 1, 1, 2],
         [2, 2, 1, 1, 2, 2, 1, 1, 2, 2, 1, 1, 2, 2, 1],
         [1, 1, 2, 2, 1, 1, 2, 2, 1, 1, 2, 2, 1, 1, 2],
         [2, 2, 1, 1, 2, 2, 1, 1, 2, 2, 1, 1, 2, 2, 1],
         [1, 1, 2, 2, 1, 1, 2, 2, 1, 1, 2, 2, 1, 1, 2]],
       valid_moves = [(0, 0)],
       is_white_active = True,
       move_count = 224,
       moves_so_far = moves224,
       last_move = Some (14, 14) \<rparr>"

text \<open>\<open>game225\<close>: \<open>game224\<close> after White's move at \<open>(0, 0)\<close>, the full board.\<close>

definition game225 :: GomokuGame where
  "game225 =
     \<lparr> board = (board game224)[0 := (board game224 ! 0)[0 := 1]],
       valid_moves = [],
       is_white_active = False,
       move_count = 225,
       moves_so_far = moves224 @ [(0, 0)],
       last_move = Some (0, 0) \<rparr>"

section \<open>Properties of the pattern evaluator\<close>

lemma check_contain_sublist: "check_contain a b = sublist a b"
proof
  assume "check_contain a b"
  then obtain i where i: "a = take (length a) (drop i b)"
    by (auto simp: check_contain_def Let_def list_ex_iff)
  have "b = take i b @ drop i b"
    by (simp only: append_take_drop_id)
  also have "drop i b = take (length a) (drop i b) @ drop (length a) (drop i b)"
    by (simp only: append_take_drop_id)
  finally have "b = take i b @ a @ drop (length a) (drop i b)"
    using i by simp
  then show "sublist a b"
    unfolding sublist_def by blast
next
  assume "sublist a b"
  then obtain ps ss where b: "b = ps @ a @ ss"
    unfolding sublist_def by blast
  have "a = take (length a) (drop (length ps) b)"
    by (simp add: b)
  moreover have "length ps < nat (int (length b) - int (length a) + 1)"
    by (simp add: b)
  ultimately show "check_contain a b"
    unfolding check_contain_def Let_def list_ex_iff by (metis atLeastLessThan_iff set_upt zero_le)
qed

lemma check_contain_rev: "check_contain a (rev b) = check_contain (rev a) b"
  by (simp add: check_contain_sublist sublist_rev_right)

lemma evaluate_patterns_rev:
  "evaluate_patterns ps (rev line) score = evaluate_patterns ps line score"
proof (induction ps arbitrary: score)
  case Nil
  show ?case by simp
next
  case (Cons p ps)
  obtain key a where p: "p = (key, a)" by (cases p)
  show ?case
    unfolding p by (simp add: check_contain_rev Cons.IH disj_commute)
qed

lemma evaluate_patterns_sum:
  "list_all (\<lambda>(key, a). map_of CHESS_PATTERN_SCORE key \<noteq> None) ps \<Longrightarrow>
   evaluate_patterns ps line score =
     Some (score + sum_list (map (\<lambda>(key, signature).
        if sublist signature line \<or> sublist (rev signature) line then pattern_score key else 0) ps))"
proof (induction ps arbitrary: score)
  case Nil
  show ?case by simp
next
  case (Cons p ps)
  obtain key a where p: "p = (key, a)" by (cases p)
  from Cons.prems obtain s where s: "map_of CHESS_PATTERN_SCORE key = Some s"
    and rest: "list_all (\<lambda>(key, a). map_of CHESS_PATTERN_SCORE key \<noteq> None) ps"
    by (auto simp: p)
  show ?case
    unfolding p using s by (simp add: Cons.IH [OF rest] check_contain_sublist pattern_score_def)
qed

text \<open>Every key of the pattern table has a score: the lookup never raises KeyError.\<close>

lemma catalog_scored:
  "list_all (\<lambda>(key, a). map_of CHESS_PATTERN_SCORE key \<noteq> None) CHESS_PATTERN_BLACK"
  by (simp add: CHESS_PATTERN_BLACK_def CHESS_PATTERN_SCORE_def)

lemma evaluate_line_spec: "evaluate_line line = Some (spec_line_score line)"
  unfolding evaluate_line_def spec_line_score_def
  by (simp add: evaluate_patterns_sum [OF catalog_scored])

text \<open>
  C9. For every line, \<^verbatim>\<open>_evaluate_line\<close> returns the same score for the line and for
  its reversal, and that score is the sum of the scores of all patterns of the catalog
  whose signature or reversed signature occurs in the line as a contiguous subsequence:
  matching is additive, and no pattern excludes another.
\<close>

theorem evaluate_line_reversal:
  "evaluate_line (rev line) = evaluate_line line \<and>
   evaluate_line line = Some (spec_line_score line)"
  unfolding evaluate_line_def spec_line_score_def
  by (simp add: evaluate_patterns_rev evaluate_patterns_sum [OF catalog_scored])

section \<open>Properties of the incremental evaluation\<close>

lemma generate_line_board:
  "board g1 = board g2 \<Longrightarrow> generate_line g1 center direction = generate_line g2 center direction"
  by (cases center) (simp_all add: generate_line_def)

lemma evaluate_directions_board:
  "board g1 = board g2 \<Longrightarrow>
   evaluate_directions g1 center directions score = evaluate_directions g2 center directions score"
  by (induction directions arbitrary: score) (simp_all add: generate_line_board [of g1 g2])

text \<open>
  C10. Two game states with the same grid and the same last move get the same result
  from \<^verbatim>\<open>evaluate_game\<close> (the same score, or an exception in both), whatever their
  active colours, move counts, histories and valid moves are.
\<close>

theorem evaluate_game_turn_independent:
  assumes "board g1 = board g2" and "last_move g1 = last_move g2"
  shows "evaluate_game g1 = evaluate_game g2"
  unfolding evaluate_game_def assms(2)
  by (rule evaluate_directions_board [OF assms(1)])

section \<open>Totality on well-formed states\<close>

lemma py_index_in: "0 \<le> i \<Longrightarrow> i < int (length xs) \<Longrightarrow> py_index xs i = Some (xs ! nat i)"
  by (simp add: py_index_def)

lemma py_store_in: "0 \<le> i \<Longrightarrow> i < int (length xs) \<Longrightarrow> py_store xs i v = Some (xs[nat i := v])"
  by (simp add: py_store_def)

lemma wf_board_row:
  assumes "wf_board b" "0 \<le> y" "y \<le> 14"
  shows "py_index b y = Some (b ! nat y)" and "length (b ! nat y) = 15"
proof -
  from assms have len: "nat y < length b"
    by (simp add: wf_board_def)
  with assms show "py_index b y = Some (b ! nat y)"
    by (simp add: py_index_in wf_board_def)
  from assms len show "length (b ! nat y) = 15"
    by (simp add: wf_board_def list_all_length)
qed

lemma wf_board_cell:
  assumes "wf_board b" "0 \<le> y" "y \<le> 14" "0 \<le> x" "x \<le> 14"
  shows "py_index (b ! nat y) x = Some (b ! nat y ! nat x)"
  using wf_board_row(2) [OF assms(1-3)] assms(4,5) by (simp add: py_index_in)

lemma wf_board_update:
  assumes "wf_board b" "0 \<le> y" "y \<le> 14"
  shows "wf_board (b[nat y := (b ! nat y)[nat x := v]])"
  using assms wf_board_row(2) [OF assms]
  by (auto simp: wf_board_def list_all_length nth_list_update)

lemma all_cells_on_board: "m \<in> set all_cells \<longleftrightarrow> on_board m"
  by (cases m) (auto simp: all_cells_def on_board_def image_iff)

lemma those_map_total: "(\<And>x. x \<in> set xs \<Longrightarrow> f x \<noteq> None) \<Longrightarrow> those (map f xs) \<noteq> None"
  by (induction xs) (auto split: option.splits)

lemma getline_total:
  assumes b: "wf_board b" and c: "on_board c" and d: "direction \<in> {0, 1, 2, 3}"
  shows "\<exists>l. getline b c direction = Some (Some l)"
proof -
  have rows: "\<And>lst i. lst \<in> set b \<Longrightarrow> 0 \<le> i \<Longrightarrow> i \<le> 14 \<Longrightarrow> \<exists>v. py_index lst i = Some v"
    using b by (auto simp: wf_board_def list_all_iff py_index_def)
  have d0: "py_index b (fst c) \<noteq> None"
    using wf_board_row(1) [OF b] c by (simp add: on_board_def)
  have d1: "those (map (\<lambda>lst. py_index lst (snd c)) b) \<noteq> None"
    using c rows by (intro those_map_total) (auto simp: on_board_def)
  have d2: "those (map (\<lambda>(i, lst).
             if snd c + int i - fst c \<ge> 0 \<and> snd c + int i - fst c \<le> 14
             then py_index lst (snd c + int i - fst c) else Some (-1)) (enumerate 0 b)) \<noteq> None"
    using rows by (intro those_map_total) (auto simp: in_set_enumerate_eq)
  have d3: "those (map (\<lambda>(i, lst).
             if fst c - int i + snd c \<ge> 0 \<and> fst c - int i + snd c \<le> 14
             then py_index lst (fst c - int i + snd c) else Some (-1)) (enumerate 0 b)) \<noteq> None"
    using rows by (intro those_map_total) (auto simp: in_set_enumerate_eq)
  from d d0 d1 d2 d3 show ?thesis
    by (auto simp: getline_def)
qed

lemma generate_line_total:
  assumes g: "wf_board (board g)" and c: "on_board c" and d: "direction \<in> {0, 1, 2, 3}"
  shows "\<exists>old new. generate_line g (Some c) direction = Some (Some old, Some new)"
proof -
  have y: "0 \<le> fst c" "fst c \<le> 14" and x: "0 \<le> snd c" "snd c \<le> 14"
    using c by (simp_all add: on_board_def)
  let ?row = "board g ! nat (fst c)"
  let ?old = "(board g)[nat (fst c) := ?row[nat (snd c) := 0]]"
  have row: "py_index (board g) (fst c) = Some ?row"
    by (rule wf_board_row(1) [OF g y])
  have row': "py_store ?row (snd c) 0 = Some (?row[nat (snd c) := 0])"
    using wf_board_row(2) [OF g y] x by (simp add: py_store_in)
  have old: "py_store (board g) (fst c) (?row[nat (snd c) := 0]) = Some ?old"
    using g y by (simp add: py_store_in wf_board_def)
  obtain l1 where l1: "getline ?old c direction = Some (Some l1)"
    using getline_total [OF wf_board_update [OF g y] c d] by blast
  obtain l2 where l2: "getline (board g) c direction = Some (Some l2)"
    using getline_total [OF g c d] by blast
  show ?thesis
    by (simp add: generate_line_def row row' old l1 l2)
qed

lemma evaluate_directions_total:
  assumes g: "wf_board (board g)" and c: "on_board c" and d: "set directions \<subseteq> {0, 1, 2, 3}"
  shows "\<exists>s. evaluate_directions g (Some c) directions score = Some s"
  using d
proof (induction directions arbitrary: score)
  case Nil
  show ?case by simp
next
  case (Cons direction directions)
  then have "direction \<in> {0, 1, 2, 3}" by simp
  from generate_line_total [OF g c this] obtain old new
    where gl: "generate_line g (Some c) direction = Some (Some old, Some new)" by blast
  from Cons obtain s where "evaluate_directions g (Some c) directions
      (score + (spec_line_score new - spec_line_score old)) = Some s"
    by fastforce
  then show ?case
    by (simp add: gl evaluate_line_of_def evaluate_line_spec)
qed

lemma evaluate_game_total:
  assumes "wf_game g" and "last_move g = Some c"
  shows "\<exists>s. evaluate_game g = Some s"
  using assms evaluate_directions_total [of g c "[0, 1, 2, 3]" 0]
  by (simp add: evaluate_game_def wf_game_def)

lemma check_cells_total: "wf_board b \<Longrightarrow> \<exists>r. check_cells b cells = Some r"
proof (induction cells)
  case Nil
  show ?case by auto
next
  case (Cons c cells)
  obtain y x where c: "c = (y, x)" by (cases c)
  from Cons obtain r where r: "check_cells b cells = Some r" by blast
  show ?case
    by (auto simp: c r wf_board_row(1) [OF Cons.prems] wf_board_cell [OF Cons.prems])
qed

lemma neighbour_moves_total:
  "wf_board (board g) \<Longrightarrow> \<exists>r. neighbour_moves g radius ms = Some r \<and> set r \<subseteq> set ms"
proof (induction ms)
  case Nil
  show ?case by simp
next
  case (Cons m ms)
  from check_cells_total [OF Cons.prems] obtain c where "check_neighbour g m radius = Some c"
    unfolding check_neighbour_def by blast
  with Cons show ?case
    by auto
qed

lemma valid_moves_with_neighbour_total:
  "wf_game g \<Longrightarrow> \<exists>r. valid_moves_with_neighbour g radius = Some r \<and> set r \<subseteq> set (valid_moves g)"
  by (simp add: valid_moves_with_neighbour_def wf_game_def neighbour_moves_total)

text \<open>The copy is made by the constructor, whose valid moves are the 225 cells: a
  candidate that is on the board is written into the copy, and any other candidate
  leaves the copy without a move. Neither raises.\<close>

lemma copy_and_make_move_total:
  assumes g: "wf_game g" and m: "m \<in> set (valid_moves g)"
  shows "\<exists>c. copy_and_make_move g m = Some (Some c) \<and> wf_game c"
proof -
  let ?c = "GomokuGame_init (Some (board g)) (is_white_active g) (move_count g)"
  from g have b: "wf_board (board g)" by (simp add: wf_game_def)
  then have ne: "board g \<noteq> []" by (auto simp: wf_board_def)
  have c: "board ?c = board g" "valid_moves ?c = all_cells" "last_move ?c = None"
    using ne by (simp_all add: GomokuGame_init_def)
  show ?thesis
  proof (cases "on_board m")
    case False
    then have "make_move ?c m = Some ?c"
      by (simp add: make_move_def c all_cells_on_board)
    moreover have "wf_game ?c"
      using b by (simp add: wf_game_def c)
    ultimately show ?thesis
      using m by (simp add: copy_and_make_move_def)
  next
    case True
    then have y: "0 \<le> fst m" "fst m \<le> 14" and x: "0 \<le> snd m" "snd m \<le> 14"
      by (simp_all add: on_board_def)
    let ?v = "if is_white_active ?c then 1 else 2 :: int"
    let ?b = "(board g)[nat (fst m) := (board g ! nat (fst m))[nat (snd m) := ?v]]"
    have "board_after_move ?c m = Some ?b"
      using wf_board_row [OF b y] x y b
      by (simp add: board_after_move_def c py_store_in wf_board_def)
    then obtain c' where c': "make_move ?c m = Some c'" "board c' = ?b" "last_move c' = Some m"
      using True by (simp add: make_move_def c all_cells_on_board)
    have "wf_game c'"
      using wf_board_update [OF b y] True by (simp add: wf_game_def c')
    with c' m show ?thesis
      by (simp add: copy_and_make_move_def)
  qed
qed

lemma minimax_loop_total:
  assumes search: "\<And>c. wf_game c \<Longrightarrow> \<exists>s mv. search c = Some (s, mv)"
    and g: "wf_game g"
  shows "set ms \<subseteq> set (valid_moves g) \<Longrightarrow>
    \<exists>s mv. minimax_loop search g ms score next_move = Some (s, mv)"
proof (induction ms arbitrary: score next_move)
  case Nil
  show ?case by simp
next
  case (Cons m ms)
  then have "m \<in> set (valid_moves g)" by simp
  from copy_and_make_move_total [OF g this] obtain c
    where c: "copy_and_make_move g m = Some (Some c)" "wf_game c" by blast
  from search [OF c(2)] obtain x mv where x: "search c = Some (x, mv)" by blast
  from Cons have "\<And>score next_move. \<exists>s mv. minimax_loop search g ms score next_move = Some (s, mv)"
    by simp
  then show ?case
    by (simp add: c x)
qed

lemma AIPlayer_make_move_total:
  "wf_game g \<Longrightarrow> \<exists>s mv. AIPlayer_make_move d g = Some (s, mv)"
proof (induction d arbitrary: g)
  case 0
  show ?case
  proof (cases "last_move g")
    case None
    then show ?thesis by simp
  next
    case (Some c)
    from evaluate_game_total [OF "0.prems" Some] obtain s where "evaluate_game g = Some s" by blast
    then show ?thesis by (simp add: Some)
  qed
next
  case (Suc d)
  show ?case
  proof (cases "last_move g")
    case None
    then show ?thesis by simp
  next
    case (Some c)
    from evaluate_game_total [OF Suc.prems Some] obtain s where s: "evaluate_game g = Some s" by blast
    from valid_moves_with_neighbour_total [OF Suc.prems] obtain ms
      where ms: "valid_moves_with_neighbour g 1 = Some ms" "set ms \<subseteq> set (valid_moves g)" by blast
    from minimax_loop_total [of "AIPlayer_make_move d", OF Suc.IH Suc.prems ms(2)]
    obtain r mv where "minimax_loop (AIPlayer_make_move d) g ms 0 None = Some (r, mv)" by blast
    then show ?thesis
      by (simp add: Some s ms)
  qed
qed

section \<open>The loops of the search, one candidate at a time\<close>

lemma minimax_loop_step:
  assumes "copy_and_make_move game m = Some (Some c)" and "search c = Some (x, mv)"
  shows "minimax_loop search game (m # ms) score next_move =
     (if x \<ge> score then minimax_loop search game ms x (Some m)
      else minimax_loop search game ms score next_move)"
  using assms by simp

lemma prune_loop_step:
  assumes "copy_and_make_move game m = Some (Some c)"
    and "search c (num_neg beta) (num_neg alpha) = Some (r, field')"
  shows "prune_loop search game (m # ms) alpha beta next_move field =
     (if num_less alpha (num_neg r)
      then (if num_le beta (num_neg r) then Some (num_neg r, Some m, field')
            else prune_loop search game ms (num_neg r) beta (Some m) field')
      else prune_loop search game ms alpha beta next_move field')"
  using assms by simp

lemma AIPlayer_make_move_leaf:
  "last_move g = Some l \<Longrightarrow> evaluate_game g = Some v \<Longrightarrow> AIPlayer_make_move 0 g = Some (v, None)"
  by simp

lemma AIPlayer_make_move_and_prune_leaf:
  "last_move g = Some l \<Longrightarrow> evaluate_game g = Some v \<Longrightarrow>
   AIPlayer_make_move_and_prune 0 depth g alpha beta = Some (Num v, None)"
  by simp

lemma AIPlayer_make_move_node:
  "last_move g = Some l \<Longrightarrow> evaluate_game g = Some v \<Longrightarrow>
   valid_moves_with_neighbour g 1 = Some (m # ms) \<Longrightarrow>
   AIPlayer_make_move (Suc d) g = minimax_loop (AIPlayer_make_move d) g (m # ms) 0 None"
  by simp

lemma AIPlayer_make_move_and_prune_node:
  "last_move g = Some l \<Longrightarrow> evaluate_game g = Some v \<Longrightarrow>
   valid_moves_with_neighbour g 1 = Some (m # ms) \<Longrightarrow>
   AIPlayer_make_move_and_prune (Suc d) depth g alpha beta = do {
      (alpha', next_move, field) \<leftarrow>
        prune_loop (AIPlayer_make_move_and_prune d depth) g (m # ms) alpha beta None None;
      if depth = Some (int (Suc d))
      then (case next_move of None \<Rightarrow> None | Some _ \<Rightarrow> Some (alpha', next_move))
      else Some (alpha', field)
    }"
  by simp

lemma child_value_minimax:
  assumes "child_value g m v"
  shows "minimax_loop (AIPlayer_make_move 0) g (m # ms) score next_move =
     (if v \<ge> score then minimax_loop (AIPlayer_make_move 0) g ms v (Some m)
      else minimax_loop (AIPlayer_make_move 0) g ms score next_move)"
proof -
  from assms obtain c where c: "copy_and_make_move g m = Some (Some c)"
    and l: "last_move c = Some m" and v: "evaluate_game c = Some v"
    by (auto simp: child_value_def split: option.splits)
  show ?thesis
    by (rule minimax_loop_step [where search = "AIPlayer_make_move 0",
          OF c AIPlayer_make_move_leaf [OF l v]])
qed

lemma child_value_prune:
  assumes "child_value g m v"
  shows "prune_loop (AIPlayer_make_move_and_prune 0 depth) g (m # ms) alpha beta next_move field =
     (if num_less alpha (Num (- v))
      then (if num_le beta (Num (- v)) then Some (Num (- v), Some m, None)
            else prune_loop (AIPlayer_make_move_and_prune 0 depth) g ms (Num (- v)) beta
                   (Some m) None)
      else prune_loop (AIPlayer_make_move_and_prune 0 depth) g ms alpha beta next_move None)"
proof -
  from assms obtain c where c: "copy_and_make_move g m = Some (Some c)"
    and l: "last_move c = Some m" and v: "evaluate_game c = Some v"
    by (auto simp: child_value_def split: option.splits)
  show ?thesis
    using prune_loop_step [where search = "AIPlayer_make_move_and_prune 0 depth",
        OF c AIPlayer_make_move_and_prune_leaf [OF l v]] by simp
qed

text \<open>Once a move is retained, one stays retained; and a candidate whose score is not
  below the running best makes the loop retain a move.\<close>

lemma minimax_loop_keeps_move:
  "minimax_loop search game ms score (Some m0) = Some (r, mv) \<Longrightarrow>
   \<exists>m. mv = Some m \<and> m \<in> set (m0 # ms)"
proof (induction ms arbitrary: score m0)
  case Nil
  then show ?case by (cases m0) auto
next
  case (Cons m ms)
  from Cons.prems obtain c x nm
    where c: "copy_and_make_move game m = Some (Some c)" and x: "search c = Some (x, nm)"
    by (auto split: option.splits prod.splits simp: bind_eq_Some_conv)
  show ?case
  proof (cases "x \<ge> score")
    case True
    with Cons.prems have "minimax_loop search game ms x (Some m) = Some (r, mv)"
      by (simp add: c x)
    from Cons.IH [OF this] show ?thesis by auto
  next
    case False
    with Cons.prems have "minimax_loop search game ms score (Some m0) = Some (r, mv)"
      by (simp add: c x)
    from Cons.IH [OF this] show ?thesis by auto
  qed
qed

lemma minimax_loop_finds_move:
  assumes "minimax_loop search game ms score None = Some (r, mv)"
    and "m \<in> set ms" and "copy_and_make_move game m = Some (Some c)"
    and "search c = Some (x, nm)" and "score \<le> x"
  shows "\<exists>m'. mv = Some m' \<and> m' \<in> set ms"
  using assms
proof (induction ms arbitrary: score)
  case Nil
  then show ?case by simp
next
  case (Cons m1 ms)
  from Cons.prems(1) obtain c1 x1 nm1
    where c1: "copy_and_make_move game m1 = Some (Some c1)" and x1: "search c1 = Some (x1, nm1)"
    by (auto split: option.splits prod.splits simp: bind_eq_Some_conv)
  show ?case
  proof (cases "x1 \<ge> score")
    case True
    with Cons.prems(1) have "minimax_loop search game ms x1 (Some m1) = Some (r, mv)"
      by (simp add: c1 x1)
    from minimax_loop_keeps_move [OF this] show ?thesis by simp
  next
    case False
    with Cons.prems(1) have loop: "minimax_loop search game ms score None = Some (r, mv)"
      by (simp add: c1 x1)
    have "m \<noteq> m1"
      using False Cons.prems(3,4,5) c1 x1 by auto
    with Cons.prems(2) have "m \<in> set ms" by simp
    from Cons.IH [OF loop this Cons.prems(3,4,5)] show ?thesis by auto
  qed
qed

section \<open>The four games, played\<close>

lemma play_opening: "play new_game [(7, 7)] = Some opening_game"
  by code_simp

lemma play_six: "play new_game six_moves = Some six_game"
  by code_simp

lemma play_corner: "play new_game corner_moves = Some corner_game"
  by code_simp

lemma play_moves224: "play new_game moves224 = Some game224"
  by code_simp

lemma play_game225: "make_move game224 (0, 0) = Some game225"
  by code_simp

lemma wf_opening: "wf_game opening_game"
  by (simp add: wf_game_def wf_board_def on_board_def opening_game_def)

lemma wf_game225: "wf_game game225"
  by code_simp

lemma opening_in_progress: "get_winner opening_game = Some None"
  by code_simp

lemma opening_value: "evaluate_game opening_game = Some 0"
  by code_simp

lemma opening_candidates:
  "valid_moves_with_neighbour opening_game 1 =
     Some [(6, 6), (7, 6), (8, 6), (6, 7), (8, 7), (6, 8), (7, 8), (8, 8)]"
  by code_simp

lemma opening_child: "child_value opening_game (6, 6) 0"
  by code_simp

lemma corner_last_move: "last_move corner_game = Some (1, 2)"
  by (simp add: corner_game_def)

lemma corner_candidates:
  "valid_moves_with_neighbour corner_game 1 = Some [(2, 0), (2, 1), (2, 2), (0, 3), (1, 3), (2, 3)]"
  by code_simp

lemma corner_value: "evaluate_game corner_game = Some 0"
  by code_simp

lemma corner_child_1: "child_value corner_game (2, 0) 0"
  by code_simp

lemma corner_child_2: "child_value corner_game (2, 1) 0"
  by code_simp

lemma corner_child_3: "child_value corner_game (2, 2) 0"
  by code_simp

lemma corner_child_4: "child_value corner_game (0, 3) 77777780"
  by code_simp

lemma corner_child_5: "child_value corner_game (1, 3) 0"
  by code_simp

lemma corner_child_6: "child_value corner_game (2, 3) 0"
  by code_simp

lemma corner_minimax: "AIPlayer_make_move 1 corner_game = Some (77777780, Some (0, 3))"
  unfolding One_nat_def AIPlayer_make_move_node [OF corner_last_move corner_value corner_candidates]
  by (simp del: minimax_loop.simps(2)
      add: child_value_minimax [OF corner_child_1] child_value_minimax [OF corner_child_2]
        child_value_minimax [OF corner_child_3] child_value_minimax [OF corner_child_4]
        child_value_minimax [OF corner_child_5] child_value_minimax [OF corner_child_6])

lemma corner_negamax:
  "AIPlayer_make_move_and_prune 1 (Some 1) corner_game NegInf PosInf = Some (Num 0, Some (2, 0))"
  unfolding One_nat_def
    AIPlayer_make_move_and_prune_node [OF corner_last_move corner_value corner_candidates]
  by (simp del: prune_loop.simps(2)
      add: child_value_prune [OF corner_child_1] child_value_prune [OF corner_child_2]
        child_value_prune [OF corner_child_3] child_value_prune [OF corner_child_4]
        child_value_prune [OF corner_child_5] child_value_prune [OF corner_child_6] num_le_def)

lemma game224_last_move: "last_move game224 = Some (14, 14)"
  by (simp add: game224_def)

lemma game224_in_progress: "get_winner game224 = Some None"
  by code_simp

lemma game224_candidates: "valid_moves_with_neighbour game224 1 = Some [(0, 0)]"
  by code_simp

lemma game224_value: "evaluate_game game224 = Some 0"
  by code_simp

lemma game224_child: "child_value game224 (0, 0) (- 67777780)"
  by code_simp

lemma game224_minimax: "AIPlayer_make_move 1 game224 = Some (0, None)"
  unfolding One_nat_def AIPlayer_make_move_node [OF game224_last_move game224_value game224_candidates]
  by (simp del: minimax_loop.simps(2) add: child_value_minimax [OF game224_child])

lemma game224_negamax:
  "AIPlayer_make_move_and_prune 1 (Some 1) game224 NegInf PosInf = Some (Num 67777780, Some (0, 0))"
  unfolding One_nat_def
    AIPlayer_make_move_and_prune_node [OF game224_last_move game224_value game224_candidates]
  by (simp del: prune_loop.simps(2) add: child_value_prune [OF game224_child] num_le_def)

section \<open>The win check\<close>

text \<open>What \<^verbatim>\<open>_five_in_a_row\<close> computes on one axis, from the two capped counts \<open>a\<close>
  and \<open>b\<close> of its half-directions: the first count alone can reach 5, whatever follows
  on the other side, and a count is never more than 4, however long the run is.\<close>

lemma five_axis_pair:
  assumes "count_direction_5 g y x xd1 yd1 w = Some a"
    and "count_direction_5 g y x xd2 yd2 w = Some b"
  shows "five_axis g y x w [(xd1, yd1), (xd2, yd2)] 1 = Some (a = 4 \<or> a + b = 4)"
  using assms by auto

text \<open>
  C1. The code breaks the exact-five rule that its own docstring states. In \<open>six_game\<close>
  no winner is reported after ten moves; White's eleventh stone at \<open>(7, 7)\<close> makes a run
  of six along row 7, so no axis has a run of exactly 5 and the specification's rule
  gives no win; \<^verbatim>\<open>_five_in_a_row\<close> returns \<^verbatim>\<open>True\<close> (the four stones to the left
  already bring the count to 5) and \<^verbatim>\<open>get_winner\<close> reports White.
\<close>

theorem five_in_a_row_accepts_six:
  "play new_game six_moves = Some six_game \<and>
   (case play new_game (butlast six_moves) of None \<Rightarrow> False | Some g \<Rightarrow> get_winner g = Some None) \<and>
   spec_run (board six_game) 7 7 (0, 1) = 6 \<and>
   \<not> spec_win (board six_game) 7 7 \<and>
   five_in_a_row six_game 7 7 (is_white_active six_game) = Some True \<and>
   get_winner six_game = Some (Some ''White'')"
proof -
  have "case play new_game (butlast six_moves) of None \<Rightarrow> False | Some g \<Rightarrow> get_winner g = Some None"
    by code_simp
  moreover have "spec_run (board six_game) 7 7 (0, 1) = 6"
    by code_simp
  moreover have "\<not> spec_win (board six_game) 7 7"
    by code_simp
  moreover have "five_in_a_row six_game 7 7 (is_white_active six_game) = Some True"
    by code_simp
  moreover have "get_winner six_game = Some (Some ''White'')"
    by code_simp
  ultimately show ?thesis
    using play_six by blast
qed

section \<open>The valid moves\<close>

text \<open>
  C2. The code breaks the invariant on every copy that \<^verbatim>\<open>copy_and_make_move\<close> makes of
  a game with a stone on the board: the constructor gives the copy all 225 cells as
  valid moves, and only the new move is removed. After White's stone at \<open>(7, 7)\<close>, the
  copy with Black's stone at \<open>(7, 8)\<close> has \<open>(7, 7)\<close> among its valid moves while the
  cell holds the white stone.
\<close>

theorem clone_valid_moves_hold_occupied_cell:
  "play new_game [(7, 7)] = Some opening_game \<and>
   (case copy_and_make_move opening_game (7, 8) of
      Some (Some c) \<Rightarrow>
        valid_moves c = remove1 (7, 8) all_cells \<and> (7, 7) \<in> set (valid_moves c) \<and>
        cell (board c) 7 7 = Some 1 \<and> cell (board c) 7 8 = Some 2
    | _ \<Rightarrow> False)"
proof -
  have "case copy_and_make_move opening_game (7, 8) of
      Some (Some c) \<Rightarrow>
        valid_moves c = remove1 (7, 8) all_cells \<and> (7, 7) \<in> set (valid_moves c) \<and>
        cell (board c) 7 7 = Some 1 \<and> cell (board c) 7 8 = Some 2
    | _ \<Rightarrow> False"
    by code_simp
  with play_opening show ?thesis by blast
qed

section \<open>The winner\<close>

text \<open>\<^verbatim>\<open>get_winner\<close> answers \<^verbatim>\<open>'Draw'\<close> exactly when the move count has reached 225
  and there is a last move, whether or not the last move made five in a row.\<close>

lemma get_winner_draw:
  "get_winner g = Some (Some ''Draw'') \<longleftrightarrow> move_count g \<ge> MAX_MOVES \<and> last_move g \<noteq> None"
  by (auto simp: get_winner_def MAX_MOVES_def bind_eq_Some_conv split: option.splits if_splits)

text \<open>
  C3. The code tests the move count before the five in a row. \<open>game224\<close> is in
  progress; White's 225th move at \<open>(0, 0)\<close> completes a run of exactly five along row 0,
  which both the specification's rule and \<^verbatim>\<open>_five_in_a_row\<close> accept, and
  \<^verbatim>\<open>get_winner\<close> answers \<^verbatim>\<open>'Draw'\<close>, not \<^verbatim>\<open>'White'\<close>.
\<close>

theorem get_winner_draw_on_winning_last_move:
  "play new_game moves224 = Some game224 \<and>
   get_winner game224 = Some None \<and>
   make_move game224 (0, 0) = Some game225 \<and>
   move_count game225 = 225 \<and>
   spec_run (board game225) 0 0 (0, 1) = 5 \<and>
   spec_win (board game225) 0 0 \<and>
   five_in_a_row game225 0 0 (is_white_active game225) = Some True \<and>
   get_winner game225 = Some (Some ''Draw'')"
proof -
  have "move_count game225 = 225"
    by (simp add: game225_def)
  moreover have "spec_run (board game225) 0 0 (0, 1) = 5"
    by code_simp
  moreover have "spec_win (board game225) 0 0"
    by code_simp
  moreover have "five_in_a_row game225 0 0 (is_white_active game225) = Some True"
    by code_simp
  moreover have "get_winner game225 = Some (Some ''Draw'')"
    by code_simp
  ultimately show ?thesis
    using play_moves224 game224_in_progress play_game225 by blast
qed

section \<open>Moves that are not valid\<close>

lemma make_move_invalid: "m \<notin> set (valid_moves g) \<Longrightarrow> make_move g m = Some g"
  by (simp add: make_move_def)

lemma copy_and_make_move_invalid: "m \<notin> set (valid_moves g) \<Longrightarrow> copy_and_make_move g m = Some None"
  by (simp add: copy_and_make_move_def)

text \<open>
  C4. The docstring of \<^verbatim>\<open>make_move\<close> promises a ValueError for a move that is not
  valid; the code prints a message and returns normally, as it does after a valid move,
  so the caller is told nothing: on \<open>opening_game\<close> the occupied cell \<open>(7, 7)\<close> and the
  cells \<open>(15, 0)\<close> and \<open>(3, -1)\<close> off the board all return the unchanged state. On a
  copy made by \<^verbatim>\<open>copy_and_make_move\<close> a move on the occupied cell \<open>(7, 7)\<close> is even
  carried out: the move count goes from 2 to 3 and the turn passes.
\<close>

theorem make_move_invalid_returns_normally:
  "make_move opening_game (7, 7) = Some opening_game \<and>
   make_move opening_game (15, 0) = Some opening_game \<and>
   make_move opening_game (3, -1) = Some opening_game \<and>
   (case copy_and_make_move opening_game (7, 8) of
      Some (Some c) \<Rightarrow>
        cell (board c) 7 7 = Some 1 \<and> move_count c = 2 \<and>
        (case make_move c (7, 7) of
           Some c' \<Rightarrow> move_count c' = 3 \<and> is_white_active c' \<noteq> is_white_active c
         | None \<Rightarrow> False)
    | _ \<Rightarrow> False)"
proof -
  have "make_move opening_game (7, 7) = Some opening_game"
    by code_simp
  moreover have "make_move opening_game (15, 0) = Some opening_game"
    by code_simp
  moreover have "make_move opening_game (3, -1) = Some opening_game"
    by code_simp
  moreover have "case copy_and_make_move opening_game (7, 8) of
      Some (Some c) \<Rightarrow>
        cell (board c) 7 7 = Some 1 \<and> move_count c = 2 \<and>
        (case make_move c (7, 7) of
           Some c' \<Rightarrow> move_count c' = 3 \<and> is_white_active c' \<noteq> is_white_active c
         | None \<Rightarrow> False)
    | _ \<Rightarrow> False"
    by code_simp
  ultimately show ?thesis by blast
qed

section \<open>The plain search\<close>

text \<open>
  C5. The running best of \<^verbatim>\<open>AIPlayer.make_move\<close> starts at 0, not below every score:
  when every child score is negative no candidate is retained and 0 is returned.
  \<open>game224\<close> is in progress with the single candidate \<open>(0, 0)\<close>, whose child score is
  -67777780; the search at depth 1 returns the score 0 and no move, where the maximum
  over the candidates is -67777780 at \<open>(0, 0)\<close>.
\<close>

theorem minimax_keeps_no_move_when_all_negative:
  "play new_game moves224 = Some game224 \<and>
   get_winner game224 = Some None \<and>
   valid_moves_with_neighbour game224 1 = Some [(0, 0)] \<and>
   child_value game224 (0, 0) (- 67777780) \<and>
   AIPlayer_make_move 1 game224 = Some (0, None)"
  using play_moves224 game224_in_progress game224_candidates game224_child game224_minimax
  by blast

section \<open>The two searches\<close>

text \<open>
  C6. The plain search takes the maximum of the child scores as they are, from 0; the
  pruned search negates them. Their scores differ at depth 1 on \<open>corner_game\<close> (six
  candidates; 77777780 against 0) and on \<open>game224\<close> (one legal move; 0 against
  67777780).
\<close>

theorem minimax_and_negamax_scores_differ:
  "play new_game corner_moves = Some corner_game \<and>
   valid_moves_with_neighbour corner_game 1 =
     Some [(2, 0), (2, 1), (2, 2), (0, 3), (1, 3), (2, 3)] \<and>
   AIPlayer_make_move 1 corner_game = Some (77777780, Some (0, 3)) \<and>
   AIPlayer_make_move_and_prune 1 (Some 1) corner_game NegInf PosInf = Some (Num 0, Some (2, 0)) \<and>
   valid_moves game224 = [(0, 0)] \<and>
   AIPlayer_make_move 1 game224 = Some (0, None) \<and>
   AIPlayer_make_move_and_prune 1 (Some 1) game224 NegInf PosInf =
     Some (Num 67777780, Some (0, 0))"
proof -
  have "valid_moves game224 = [(0, 0)]"
    by (simp add: game224_def)
  with play_corner corner_candidates corner_minimax corner_negamax game224_minimax game224_negamax
  show ?thesis by blast
qed

section \<open>The entry point\<close>

text \<open>
  C7, as the claim states it, fails at depth 0: after White's first stone the game is in
  progress, and \<^verbatim>\<open>activate_make_move\<close> at depth 0 returns the static evaluation and no
  move.
\<close>

theorem activate_depth_zero_returns_no_move:
  "play new_game [(7, 7)] = Some opening_game \<and>
   get_winner opening_game = Some None \<and>
   activate_make_move opening_game 0 = Some (0, None)"
proof -
  have l: "last_move opening_game = Some (7, 7)"
    by (simp add: opening_game_def)
  have "activate_make_move opening_game 0 = Some (0, None)"
    unfolding activate_make_move_def AIPlayer_make_move_leaf [OF l opening_value] by simp
  with play_opening opening_in_progress show ?thesis by blast
qed

text \<open>
  C7, amended. On a well-formed state \<^verbatim>\<open>activate_make_move\<close> returns a pair at every
  depth. On the empty board it is \<open>(100, (7, 7))\<close>. On a board with a last move, no move
  is returned at depth 0 and when there is no candidate with a neighbour; at a depth
  above 0 a move, one of the candidates, is returned whenever some candidate's child
  score is at least 0.
\<close>

theorem activate_make_move_chosen_move:
  assumes "wf_game game"
  shows "\<exists>score mv. activate_make_move game d = Some (score, mv) \<and>
     (last_move game = None \<longrightarrow> score = 100 \<and> mv = Some (7, 7)) \<and>
     (last_move game \<noteq> None \<and> d = 0 \<longrightarrow> mv = None) \<and>
     (last_move game \<noteq> None \<and> valid_moves_with_neighbour game 1 = Some [] \<longrightarrow> mv = None) \<and>
     (last_move game \<noteq> None \<and> 0 < d \<and>
        (\<exists>ms m c x nm. valid_moves_with_neighbour game 1 = Some ms \<and> m \<in> set ms \<and>
           copy_and_make_move game m = Some (Some c) \<and>
           AIPlayer_make_move (d - 1) c = Some (x, nm) \<and> 0 \<le> x)
      \<longrightarrow> (\<exists>m ms. mv = Some m \<and> valid_moves_with_neighbour game 1 = Some ms \<and> m \<in> set ms))"
proof -
  from AIPlayer_make_move_total [OF assms] obtain score mv
    where r: "AIPlayer_make_move d game = Some (score, mv)" by blast
  have a: "activate_make_move game d = Some (score, mv)"
    by (simp add: activate_make_move_def r)
  have p1: "last_move game = None \<longrightarrow> score = 100 \<and> mv = Some (7, 7)"
    using r by (cases d) auto
  have p2: "last_move game \<noteq> None \<and> d = 0 \<longrightarrow> mv = None"
    using r by (auto simp: bind_eq_Some_conv)
  have p3: "last_move game \<noteq> None \<and> valid_moves_with_neighbour game 1 = Some [] \<longrightarrow> mv = None"
    using r by (cases d) (auto simp: bind_eq_Some_conv)
  have p4: "last_move game \<noteq> None \<and> 0 < d \<and>
        (\<exists>ms m c x nm. valid_moves_with_neighbour game 1 = Some ms \<and> m \<in> set ms \<and>
           copy_and_make_move game m = Some (Some c) \<and>
           AIPlayer_make_move (d - 1) c = Some (x, nm) \<and> 0 \<le> x)
      \<longrightarrow> (\<exists>m ms. mv = Some m \<and> valid_moves_with_neighbour game 1 = Some ms \<and> m \<in> set ms)"
  proof (intro impI, elim conjE exE)
    fix ms m c x nm
    assume l: "last_move game \<noteq> None" and d: "0 < d"
      and ms: "valid_moves_with_neighbour game 1 = Some ms" and m: "m \<in> set ms"
      and c: "copy_and_make_move game m = Some (Some c)"
      and x: "AIPlayer_make_move (d - 1) c = Some (x, nm)" and x0: "0 \<le> x"
    from d obtain n where n: "d = Suc n" by (cases d) auto
    from m have "ms \<noteq> []" by auto
    with r l ms have "minimax_loop (AIPlayer_make_move n) game ms 0 None = Some (score, mv)"
      by (auto simp: n bind_eq_Some_conv)
    from minimax_loop_finds_move [OF this m c _ x0] x n
    show "\<exists>m ms. mv = Some m \<and> valid_moves_with_neighbour game 1 = Some ms \<and> m \<in> set ms"
      using ms by auto
  qed
  show ?thesis
    by (rule exI [of _ score], rule exI [of _ mv]) (intro conjI a p1 p2 p3 p4)
qed

text \<open>The theorem at four states: the new game at depth 2; \<open>opening_game\<close> at depth 0;
  the full board \<open>game225\<close>, which has no candidate, at depth 1; and \<open>opening_game\<close> at
  depth 1, where the candidate \<open>(6, 6)\<close> has the child score 0.\<close>

theorem activate_make_move_chosen_move_witness:
  "wf_game new_game \<and> activate_make_move new_game 2 = Some (100, Some (7, 7)) \<and>
   wf_game opening_game \<and> last_move opening_game \<noteq> None \<and>
   (\<exists>score. activate_make_move opening_game 0 = Some (score, None)) \<and>
   wf_game game225 \<and> last_move game225 \<noteq> None \<and>
   valid_moves_with_neighbour game225 1 = Some [] \<and>
   (\<exists>score. activate_make_move game225 1 = Some (score, None)) \<and>
   child_value opening_game (6, 6) 0 \<and>
   (\<exists>score m. activate_make_move opening_game 1 = Some (score, Some m))"
proof -
  have w0: "wf_game new_game"
    by code_simp
  have l0: "last_move new_game = None"
    by (simp add: new_game_def GomokuGame_init_def)
  have l1: "last_move opening_game \<noteq> None"
    by (simp add: opening_game_def)
  have l2: "last_move game225 \<noteq> None"
    by (simp add: game225_def)
  have c2: "valid_moves_with_neighbour game225 1 = Some []"
    by (simp add: valid_moves_with_neighbour_def game225_def)
  from opening_child obtain c where c: "copy_and_make_move opening_game (6, 6) = Some (Some c)"
    and lc: "last_move c = Some (6, 6)" and vc: "evaluate_game c = Some 0"
    by (auto simp: child_value_def split: option.splits)
  have xc: "AIPlayer_make_move (1 - 1) c = Some (0, None)"
    using AIPlayer_make_move_leaf [OF lc vc] by simp
  have a: "activate_make_move new_game 2 = Some (100, Some (7, 7))"
    using activate_make_move_chosen_move [OF w0, of 2] l0 by auto
  have b: "\<exists>score. activate_make_move opening_game 0 = Some (score, None)"
    using activate_make_move_chosen_move [OF wf_opening, of 0] l1 by auto
  have e: "\<exists>score. activate_make_move game225 1 = Some (score, None)"
    using activate_make_move_chosen_move [OF wf_game225, of 1] l2 c2 by auto
  have f: "\<exists>score m. activate_make_move opening_game 1 = Some (score, Some m)"
  proof -
    from activate_make_move_chosen_move [OF wf_opening, of 1] obtain score mv
      where r: "activate_make_move opening_game 1 = Some (score, mv)"
        and p: "last_move opening_game \<noteq> None \<and> 0 < (1::nat) \<and>
          (\<exists>ms m c x nm. valid_moves_with_neighbour opening_game 1 = Some ms \<and> m \<in> set ms \<and>
             copy_and_make_move opening_game m = Some (Some c) \<and>
             AIPlayer_make_move (1 - 1) c = Some (x, nm) \<and> 0 \<le> x)
          \<longrightarrow> (\<exists>m ms. mv = Some m \<and> valid_moves_with_neighbour opening_game 1 = Some ms \<and>
                 m \<in> set ms)"
      by blast
    have "\<exists>ms m c x nm. valid_moves_with_neighbour opening_game 1 = Some ms \<and> m \<in> set ms \<and>
             copy_and_make_move opening_game m = Some (Some c) \<and>
             AIPlayer_make_move (1 - 1) c = Some (x, nm) \<and> 0 \<le> x"
      using opening_candidates c xc by (intro exI [of _ "(6, 6)"] exI conjI) auto
    with p l1 obtain m where "mv = Some m" by auto
    with r show ?thesis by blast
  qed
  from w0 a wf_opening l1 b wf_game225 l2 c2 e opening_child f show ?thesis
    by (intro conjI)
qed

section \<open>The copy\<close>

text \<open>What the copy holds after a valid move on the board: the grid, the active
  colour, the move count and the last move that \<^verbatim>\<open>make_move\<close> gives on the receiver
  itself, but the constructor's valid moves less the move, and a history of the one
  move.\<close>

lemma copy_and_make_move_fields:
  assumes "m \<in> set (valid_moves g)" and "on_board m" and "board g \<noteq> []"
    and "make_move g m = Some g'"
  shows "\<exists>c. copy_and_make_move g m = Some (Some c) \<and> board c = board g' \<and>
    is_white_active c = is_white_active g' \<and> move_count c = move_count g' \<and>
    last_move c = last_move g' \<and> valid_moves c = remove1 m all_cells \<and> moves_so_far c = [m]"
  using assms
  by (auto simp: copy_and_make_move_def make_move_def GomokuGame_init_def board_after_move_def
      all_cells_on_board bind_eq_Some_conv)

text \<open>
  C8. The docstring of \<^verbatim>\<open>copy_and_make_move\<close> promises the move made in a copy of the
  game; what is returned is not the receiver's state with the move applied. On
  \<open>opening_game\<close> with the move \<open>(7, 8)\<close> the grid, the turn, the move count and the last
  move are those that \<^verbatim>\<open>make_move\<close> gives, but the history of the returned game is the
  one move \<open>(7, 8)\<close> and its valid moves hold the occupied cell \<open>(7, 7)\<close>. The receiver is
  a value of the model and is not changed by the call; a move that is not valid returns
  \<^verbatim>\<open>None\<close> (lemma \<open>copy_and_make_move_invalid\<close>).
\<close>

theorem copy_and_make_move_not_a_clone:
  "(case (copy_and_make_move opening_game (7, 8), make_move opening_game (7, 8)) of
      (Some (Some c), Some g') \<Rightarrow>
        board c = board g' \<and> is_white_active c = is_white_active g' \<and>
        move_count c = move_count g' \<and> last_move c = last_move g' \<and>
        moves_so_far c = [(7, 8)] \<and> moves_so_far g' = [(7, 7), (7, 8)] \<and>
        (7, 7) \<in> set (valid_moves c) \<and> (7, 7) \<notin> set (valid_moves g') \<and> c \<noteq> g'
    | _ \<Rightarrow> False)"
  by code_simp

section \<open>The evaluation and the turn\<close>

text \<open>The theorem of C10 at \<open>opening_game\<close> and the same board with White to move and
  another move count.\<close>

theorem evaluate_game_turn_independent_witness:
  "board opening_game = board (opening_game\<lparr>is_white_active := True, move_count := 5\<rparr>) \<and>
   last_move opening_game = last_move (opening_game\<lparr>is_white_active := True, move_count := 5\<rparr>) \<and>
   is_white_active opening_game \<noteq>
     is_white_active (opening_game\<lparr>is_white_active := True, move_count := 5\<rparr>) \<and>
   evaluate_game opening_game =
     evaluate_game (opening_game\<lparr>is_white_active := True, move_count := 5\<rparr>)"
proof -
  have b: "board opening_game = board (opening_game\<lparr>is_white_active := True, move_count := 5\<rparr>)"
    by simp
  have l: "last_move opening_game
      = last_move (opening_game\<lparr>is_white_active := True, move_count := 5\<rparr>)"
    by simp
  have w: "is_white_active opening_game \<noteq>
     is_white_active (opening_game\<lparr>is_white_active := True, move_count := 5\<rparr>)"
    by (simp add: opening_game_def)
  from b l w evaluate_game_turn_independent [OF b l] show ?thesis
    by (intro conjI)
qed

end
